theory Spec2Isabelle
  imports Complex_Main "HOL-Library.Multiset"
begin

section \<open>Python values, exceptions and warnings\<close>

text \<open>
  The exceptions the modelled code can raise. A raising call is the \<open>Inl\<close> branch of a
  sum, a returning call the \<open>Inr\<close> branch.
\<close>

datatype error =
    AssertionError | KeyError | IndexError | ValueError | TypeError
  | ZeroDivisionError | NetworkXError | AttributeError

text \<open>The attribute values stored on nodes and edges, as \<open>gna\<close> and \<open>gea\<close> hand them out.\<close>

datatype val = Num real | Vec "real list" | Mat "real list list" | Idx int | Str string

text \<open>
  The three messages \<open>state_graph.py\<close> passes to \<open>warnings.warn\<close>. An operation returns
  the warnings it issued, in order, next to its result: \<open>remove_edge\<close> can both warn and
  raise.
\<close>

datatype warning = NodeExists | SameNodes nat nat | EdgeExists nat nat

section \<open>The state graph (\<open>sirl/models/state_graph.py\<close>)\<close>

text \<open>
  The attributes \<open>add_node\<close> and \<open>add_edge\<close> store. \<open>pi\<close> clashes with the constant of
  \<open>Complex_Main\<close>, so every field carries a prefix.
\<close>

record node_attrs =
  n_data :: "real list"
  n_cost :: real
  n_priority :: real
  n_Q :: "real list"
  n_V :: real
  n_pi :: int
  n_type :: string

record edge_attrs =
  e_duration :: real
  e_reward :: real
  e_phi :: "real list"
  e_traj :: "real list list"

text \<open>
  The \<open>networkx.DiGraph\<close> behind \<open>StateGraph._graph\<close>: \<open>g_nodes\<close> is the node dictionary in
  the order \<open>G.nodes()\<close> enumerates it, \<open>g_edges\<close> holds the edges with their attributes, in
  the order they were added. A node that \<open>networkx\<close> created on its own while adding an
  edge has an empty attribute dictionary: \<open>None\<close>.
\<close>

record state_graph =
  g_nodes :: "(nat \<times> node_attrs option) list"
  g_edges :: "((nat \<times> nat) \<times> edge_attrs) list"
  state_dim :: nat

definition nodes :: "state_graph \<Rightarrow> nat list" where
  "nodes g = map fst (g_nodes g)"

text \<open>
  \<open>G.edges()\<close> walks the adjacency: node by node in the order of \<open>G.nodes()\<close>, and for each
  node its outgoing edges in the order they were added.
\<close>

definition all_edges :: "state_graph \<Rightarrow> (nat \<times> nat) list" where
  "all_edges g = concat (map (\<lambda>n. filter (\<lambda>e. fst e = n) (map fst (g_edges g))) (nodes g))"

definition has_node :: "state_graph \<Rightarrow> nat \<Rightarrow> bool" where
  "has_node g n = (n \<in> set (nodes g))"

definition edge_exists :: "state_graph \<Rightarrow> nat \<Rightarrow> nat \<Rightarrow> bool" where
  "edge_exists g source target = ((source, target) \<in> set (map fst (g_edges g)))"

definition empty_graph :: "nat \<Rightarrow> state_graph" where
  "empty_graph d = \<lparr>g_nodes = [], g_edges = [], state_dim = d\<rparr>"

subsection \<open>The library's own mutators\<close>

definition nx_ensure_node :: "nat \<Rightarrow> (nat \<times> node_attrs option) list \<Rightarrow> (nat \<times> node_attrs option) list" where
  "nx_ensure_node n ns = (if n \<in> set (map fst ns) then ns else ns @ [(n, None)])"

text \<open>
  \<open>DiGraph.add_edge\<close>, called on an absent edge: it creates missing end points and records
  the edge under its source node.
\<close>

definition nx_add_edge :: "state_graph \<Rightarrow> nat \<Rightarrow> nat \<Rightarrow> edge_attrs \<Rightarrow> state_graph" where
  "nx_add_edge g u v a =
     g\<lparr>g_nodes := nx_ensure_node v (nx_ensure_node u (g_nodes g)),
       g_edges := g_edges g @ [((u, v), a)]\<rparr>"

text \<open>\<open>DiGraph.remove_edge\<close> raises \<open>NetworkXError\<close> when the edge is not in the graph.\<close>

definition nx_remove_edge :: "state_graph \<Rightarrow> nat \<Rightarrow> nat \<Rightarrow> error + state_graph" where
  "nx_remove_edge g u v =
     (if edge_exists g u v
      then Inr (g\<lparr>g_edges := filter (\<lambda>e. fst e \<noteq> (u, v)) (g_edges g)\<rparr>)
      else Inl NetworkXError)"

subsection \<open>\<open>add_node\<close>, \<open>add_edge\<close>, \<open>remove_edge\<close>\<close>

text \<open>
  \<open>asarray(traj).ndim\<close> for a list of rows: a non-empty list of rows of one length is a
  2-dimensional array, anything else (no row, or ragged rows) a 1-dimensional one.
\<close>

definition ndim :: "real list list \<Rightarrow> nat" where
  "ndim rows = (if rows \<noteq> [] \<and> list_all (\<lambda>r. length r = length (hd rows)) rows then 2 else 1)"

definition add_node ::
  "state_graph \<Rightarrow> nat \<Rightarrow> real list \<Rightarrow> real \<Rightarrow> real \<Rightarrow> real list \<Rightarrow> real \<Rightarrow> int \<Rightarrow> string
     \<Rightarrow> warning list \<times> (error + state_graph)" where
  "add_node g nid data cost priority Q V p ntype =
     (if length data \<noteq> state_dim g then ([], Inl AssertionError)
      else if \<not> has_node g nid
      then ([], Inr (g\<lparr>g_nodes := g_nodes g @
              [(nid, Some \<lparr>n_data = data, n_cost = cost, n_priority = priority,
                           n_Q = Q, n_V = V, n_pi = p, n_type = ntype\<rparr>)]\<rparr>))
      else ([NodeExists], Inr g))"

definition add_edge ::
  "state_graph \<Rightarrow> nat \<Rightarrow> nat \<Rightarrow> real \<Rightarrow> real \<Rightarrow> real list \<Rightarrow> real list list
     \<Rightarrow> warning list \<times> (error + state_graph)" where
  "add_edge g source target duration reward phi traj =
     (if \<not> 0 \<le> duration then ([], Inl AssertionError)
      else if ndim traj \<noteq> 2 then ([], Inl AssertionError)
      else if source = target then ([SameNodes source target], Inr g)
      else if \<not> edge_exists g source target
      then ([], Inr (nx_add_edge g source target
              \<lparr>e_duration = duration, e_reward = reward, e_phi = phi, e_traj = traj\<rparr>))
      else ([EdgeExists source target], Inr g))"

text \<open>
  \<open>remove_edge\<close> warns on \<open>source == target\<close> and then, in every case, calls the library's
  \<open>remove_edge\<close>.
\<close>

definition remove_edge :: "state_graph \<Rightarrow> nat \<Rightarrow> nat \<Rightarrow> warning list \<times> (error + state_graph)" where
  "remove_edge g source target =
     ((if source = target then [SameNodes source target] else []),
      nx_remove_edge g source target)"

text \<open>The graph an operation leaves behind: a raising operation has not touched it.\<close>

definition graph_after :: "state_graph \<Rightarrow> warning list \<times> (error + state_graph) \<Rightarrow> state_graph" where
  "graph_after g out = (case snd out of Inl _ \<Rightarrow> g | Inr g' \<Rightarrow> g')"

text \<open>Building a graph through the interface; a raise keeps the graph built so far.\<close>

definition with_node ::
  "nat \<Rightarrow> real list \<Rightarrow> state_graph \<Rightarrow> state_graph" where
  "with_node nid data g = graph_after g (add_node g nid data 0 0 [] 0 0 ''simple'')"

definition with_edge :: "nat \<Rightarrow> nat \<Rightarrow> real \<Rightarrow> real list \<Rightarrow> state_graph \<Rightarrow> state_graph" where
  "with_edge s t r phi g = graph_after g (add_edge g s t 1 r phi [[0, 0], [1, 1]])"

section \<open>Structural conflicts\<close>

lemma ndim_two_rows: "ndim [[0, 0], [1, 1]] = 2"
  by (simp add: ndim_def)

text \<open>
  Claim C8, as amended. \<open>add_edge\<close> with \<open>source = target\<close>, or on a pair that already has
  an edge, never changes the graph: the graph left behind is the one it was called on, with
  its edges, their number and every attribute. When the arguments pass the validation that
  comes first (a non-negative duration, a 2-dimensional trajectory) the call issues exactly
  one warning and returns; when they do not, it raises \<open>AssertionError\<close> and issues no
  warning.
\<close>

theorem add_edge_conflict_noop:
  assumes "source = target \<or> edge_exists g source target"
  shows "graph_after g (add_edge g source target duration reward phi traj) = g
       \<and> (0 \<le> duration \<and> ndim traj = 2 \<longrightarrow>
            add_edge g source target duration reward phi traj =
              ([if source = target then SameNodes source target else EdgeExists source target],
               Inr g))
       \<and> (\<not> (0 \<le> duration \<and> ndim traj = 2) \<longrightarrow>
            add_edge g source target duration reward phi traj = ([], Inl AssertionError))"
  using assms by (auto simp: add_edge_def graph_after_def)

text \<open>
  Edges are enumerated by source node: on the nodes 0 and 1, the edge from 1 to 0 added
  before the edge from 0 to 1 comes after it in \<open>all_edges\<close>.
\<close>

lemma all_edges_by_source:
  "all_edges (with_edge 0 1 0 [] (with_edge 1 0 0 []
      (with_node 1 [0, 0] (with_node 0 [0, 0] (empty_graph 2))))) = [(0, 1), (1, 0)]"
  by (simp add: with_edge_def with_node_def empty_graph_def add_node_def add_edge_def
      graph_after_def has_node_def nodes_def edge_exists_def all_edges_def nx_add_edge_def
      nx_ensure_node_def ndim_def)

definition g_pair :: state_graph where
  "g_pair = with_edge 0 1 (1 / 2) [1, 0] (with_node 1 [2, 0] (with_node 0 [0, 0] (empty_graph 2)))"

lemma g_pair_unfolded:
  "g_pair = \<lparr>g_nodes =
       [(0, Some \<lparr>n_data = [0, 0], n_cost = 0, n_priority = 0, n_Q = [], n_V = 0, n_pi = 0,
                   n_type = ''simple''\<rparr>),
        (1, Some \<lparr>n_data = [2, 0], n_cost = 0, n_priority = 0, n_Q = [], n_V = 0, n_pi = 0,
                   n_type = ''simple''\<rparr>)],
     g_edges = [((0, 1), \<lparr>e_duration = 1, e_reward = 1 / 2, e_phi = [1, 0],
                           e_traj = [[0, 0], [1, 1]]\<rparr>)],
     state_dim = 2\<rparr>"
  by (simp add: g_pair_def with_edge_def with_node_def empty_graph_def add_node_def add_edge_def
      graph_after_def has_node_def nodes_def edge_exists_def all_edges_def nx_add_edge_def
      nx_ensure_node_def ndim_def)

theorem add_edge_conflict_noop_witness:
  "add_edge g_pair 0 1 2 7 [0, 1] [[0, 0], [1, 1]] = ([EdgeExists 0 1], Inr g_pair)
   \<and> add_edge g_pair 1 1 2 7 [0, 1] [[0, 0], [1, 1]] = ([SameNodes 1 1], Inr g_pair)
   \<and> graph_after g_pair (add_edge g_pair 1 1 (- 1) 7 [0, 1] []) = g_pair"
proof -
  have e: "edge_exists g_pair 0 1"
    by (simp add: g_pair_unfolded edge_exists_def all_edges_def)
  have "add_edge g_pair 0 1 2 7 [0, 1] [[0, 0], [1, 1]] = ([EdgeExists 0 1], Inr g_pair)"
    using add_edge_conflict_noop [of 0 1 g_pair 2 7 "[0, 1]" "[[0, 0], [1, 1]]"] e
    by (simp add: ndim_two_rows)
  moreover have "add_edge g_pair 1 1 2 7 [0, 1] [[0, 0], [1, 1]] = ([SameNodes 1 1], Inr g_pair)"
    using add_edge_conflict_noop [of 1 1 g_pair 2 7 "[0, 1]" "[[0, 0], [1, 1]]"]
    by (simp add: ndim_two_rows)
  moreover have "graph_after g_pair (add_edge g_pair 1 1 (- 1) 7 [0, 1] []) = g_pair"
  proof -
    have "(1::nat) = 1 \<or> edge_exists g_pair 1 1" by simp
    then show ?thesis by (rule add_edge_conflict_noop [THEN conjunct1])
  qed
  ultimately show ?thesis by simp
qed

text \<open>
  Claim C8, as stated, has every such call issue a warning. The validation of the arguments
  comes before the test for \<open>source = target\<close>: with the duration \<open>- 1\<close> the call on the pair
  (1, 1) raises \<open>AssertionError\<close>, and the list of its warnings is empty.
\<close>

theorem add_edge_invalid_no_warning:
  "add_edge g_pair 1 1 (- 1) 7 [0, 1] [[0, 0], [1, 1]] = ([], Inl AssertionError)
   \<and> fst (add_edge g_pair 1 1 (- 1) 7 [0, 1] [[0, 0], [1, 1]]) = []"
  by (simp add: add_edge_def)

text \<open>
  A graph built through \<open>add_edge\<close> has no edge from a node to itself: \<open>add_edge\<close> turns
  every such request into a warning. On such a graph the library call in \<open>remove_edge\<close>
  finds no edge to remove.
\<close>

lemma remove_edge_self_loop_absent:
  "\<not> edge_exists g n n \<Longrightarrow> remove_edge g n n = ([SameNodes n n], Inl NetworkXError)"
  by (simp add: remove_edge_def nx_remove_edge_def)

lemma remove_edge_self_loop_present:
  "edge_exists g n n \<Longrightarrow>
     remove_edge g n n =
       ([SameNodes n n], Inr (g\<lparr>g_edges := filter (\<lambda>e. fst e \<noteq> (n, n)) (g_edges g)\<rparr>))"
  by (simp add: remove_edge_def nx_remove_edge_def)

text \<open>
  Claim C4. \<open>remove_edge n n\<close> is said to warn, change nothing and carry on. On the graph
  with the nodes 0 and 1 and the edge from 0 to 1, \<open>remove_edge 1 1\<close> warns and then raises
  the library's \<open>NetworkXError\<close>: the call after the warning is not guarded.
\<close>

theorem remove_edge_self_loop_raises:
  "remove_edge g_pair 1 1 = ([SameNodes 1 1], Inl NetworkXError)"
  by (simp add: remove_edge_def nx_remove_edge_def g_pair_unfolded edge_exists_def all_edges_def)


section \<open>Attribute access\<close>

text \<open>The allow-lists \<open>_node_attrs\<close> and \<open>_edge_attrs\<close>.\<close>

definition node_attr_names :: "string list" where
  "node_attr_names = [''data'', ''cost'', ''priority'', ''Q'', ''V'', ''pi'', ''type'']"

definition edge_attr_names :: "string list" where
  "edge_attr_names = [''source'', ''target'', ''duration'', ''reward'', ''phi'', ''traj'']"

definition check_node_attributes :: "state_graph \<Rightarrow> nat \<Rightarrow> string \<Rightarrow> error + unit" where
  "check_node_attributes g node_id attribute =
     (if attribute \<notin> set node_attr_names then Inl AssertionError
      else if \<not> has_node g node_id then Inl AssertionError
      else Inr ())"

definition check_edge_attributes :: "state_graph \<Rightarrow> nat \<Rightarrow> nat \<Rightarrow> string \<Rightarrow> error + unit" where
  "check_edge_attributes g source target attribute =
     (if attribute \<notin> set edge_attr_names then Inl AssertionError
      else if \<not> edge_exists g source target then Inl AssertionError
      else Inr ())"

text \<open>The lookup in a node's attribute dictionary; a key it does not hold is a \<open>KeyError\<close>.\<close>

definition node_val :: "node_attrs \<Rightarrow> string \<Rightarrow> error + val" where
  "node_val a k =
     (if k = ''data'' then Inr (Vec (n_data a))
      else if k = ''cost'' then Inr (Num (n_cost a))
      else if k = ''priority'' then Inr (Num (n_priority a))
      else if k = ''Q'' then Inr (Vec (n_Q a))
      else if k = ''V'' then Inr (Num (n_V a))
      else if k = ''pi'' then Inr (Idx (n_pi a))
      else if k = ''type'' then Inr (Str (n_type a))
      else Inl KeyError)"

text \<open>
  The lookup in an edge's attribute dictionary: \<open>add_edge\<close> stores \<open>duration\<close>, \<open>reward\<close>,
  \<open>phi\<close> and \<open>traj\<close>, so \<open>source\<close> and \<open>target\<close>, though allowed names, are not keys.
\<close>

definition edge_val :: "edge_attrs \<Rightarrow> string \<Rightarrow> error + val" where
  "edge_val a k =
     (if k = ''duration'' then Inr (Num (e_duration a))
      else if k = ''reward'' then Inr (Num (e_reward a))
      else if k = ''phi'' then Inr (Vec (e_phi a))
      else if k = ''traj'' then Inr (Mat (e_traj a))
      else Inl KeyError)"

definition gna :: "state_graph \<Rightarrow> nat \<Rightarrow> string \<Rightarrow> error + val" where
  "gna g node_id attribute =
     (case check_node_attributes g node_id attribute of
        Inl e \<Rightarrow> Inl e
      | Inr _ \<Rightarrow>
          (case map_of (g_nodes g) node_id of
             Some (Some a) \<Rightarrow> node_val a attribute
           | _ \<Rightarrow> Inl KeyError))"

definition gea :: "state_graph \<Rightarrow> nat \<Rightarrow> nat \<Rightarrow> string \<Rightarrow> error + val" where
  "gea g source target attribute =
     (case check_edge_attributes g source target attribute of
        Inl e \<Rightarrow> Inl e
      | Inr _ \<Rightarrow>
          (case map_of (g_edges g) (source, target) of
             Some a \<Rightarrow> edge_val a attribute
           | None \<Rightarrow> Inl KeyError))"

text \<open>A comprehension over calls that can raise: the first raise ends it.\<close>

fun mapE :: "('a \<Rightarrow> error + 'b) \<Rightarrow> 'a list \<Rightarrow> error + 'b list" where
  "mapE f [] = Inr []"
| "mapE f (x # xs) =
     (case f x of
        Inl e \<Rightarrow> Inl e
      | Inr y \<Rightarrow> (case mapE f xs of Inl e \<Rightarrow> Inl e | Inr ys \<Rightarrow> Inr (y # ys)))"

fun filterE :: "('a \<Rightarrow> error + bool) \<Rightarrow> 'a list \<Rightarrow> error + 'a list" where
  "filterE f [] = Inr []"
| "filterE f (x # xs) =
     (case f x of
        Inl e \<Rightarrow> Inl e
      | Inr b \<Rightarrow>
          (case filterE f xs of
             Inl e \<Rightarrow> Inl e
           | Inr ys \<Rightarrow> Inr (if b then x # ys else ys)))"

definition get_signal :: "state_graph \<Rightarrow> string \<Rightarrow> error + val list" where
  "get_signal g name =
     (if name \<notin> set [''cost'', ''policy'', ''priority'', ''V'', ''Q''] then Inl AssertionError
      else mapE (\<lambda>n. gna g n name) (nodes g))"

lemma mapE_total:
  "(\<And>x. x \<in> set xs \<Longrightarrow> f x = Inr (h x)) \<Longrightarrow> mapE f xs = Inr (map h xs)"
  by (induction xs) auto

lemma mapE_Inr_length: "mapE f xs = Inr ys \<Longrightarrow> length ys = length xs"
  by (induction xs arbitrary: ys) (auto split: sum.splits)

lemma mapE_Inr_nth:
  "mapE f xs = Inr ys \<Longrightarrow> i < length xs \<Longrightarrow> f (xs ! i) = Inr (ys ! i)"
proof (induction xs arbitrary: ys i)
  case Nil
  then show ?case by simp
next
  case (Cons x xs)
  then show ?case by (cases i) (auto split: sum.splits)
qed

lemma filterE_subset: "filterE f xs = Inr ys \<Longrightarrow> set ys \<subseteq> set xs"
  by (induction xs arbitrary: ys) (auto split: sum.splits if_splits)

text \<open>
  On the four names that are node attributes, \<open>get_signal\<close> returns one value per node, in
  the order of \<open>nodes\<close>, when every node carries the attributes of \<open>add_node\<close>.
\<close>

lemma get_signal_attribute_names:
  assumes "name \<in> {''cost'', ''priority'', ''V'', ''Q''}"
    and "distinct (nodes g)"
    and "\<And>n a. (n, a) \<in> set (g_nodes g) \<Longrightarrow> a \<noteq> None"
  shows "\<exists>vs. get_signal g name = Inr vs \<and> length vs = length (nodes g)"
proof -
  have "\<exists>v. gna g n name = Inr v" if "n \<in> set (nodes g)" for n
  proof -
    from that obtain a where "(n, a) \<in> set (g_nodes g)"
      by (auto simp: nodes_def)
    with assms(2) have m: "map_of (g_nodes g) n = Some a"
      by (simp add: nodes_def)
    from \<open>(n, a) \<in> set (g_nodes g)\<close> assms(3) obtain b where "a = Some b"
      by (cases a) auto
    with m that assms(1) show ?thesis
      by (auto simp: gna_def check_node_attributes_def node_attr_names_def has_node_def
          node_val_def)
  qed
  then have "\<forall>n \<in> set (nodes g). gna g n name = Inr (projr (gna g n name))"
    by fastforce
  then have "mapE (\<lambda>n. gna g n name) (nodes g)
      = Inr (map (\<lambda>n. projr (gna g n name)) (nodes g))"
    by (intro mapE_total) simp
  with assms(1) show ?thesis
    by (auto simp: get_signal_def)
qed

lemma get_signal_policy_nonempty:
  "nodes g \<noteq> [] \<Longrightarrow> get_signal g ''policy'' = Inl AssertionError"
  by (cases "nodes g")
    (simp_all add: get_signal_def gna_def check_node_attributes_def node_attr_names_def)

text \<open>
  Claim C5. \<open>get_signal\<close> is said to succeed on each of \<open>cost\<close>, \<open>policy\<close>, \<open>priority\<close>,
  \<open>V\<close> and \<open>Q\<close>. Its own assertion admits \<open>policy\<close>, but it hands the name to \<open>gna\<close>, whose
  allow-list knows the attribute as \<open>pi\<close>: on the graph with the nodes 0 and 1 the call
  with \<open>policy\<close> raises \<open>AssertionError\<close>, while the call with \<open>cost\<close> returns one value
  per node.
\<close>

theorem get_signal_policy_raises:
  "get_signal g_pair ''policy'' = Inl AssertionError
   \<and> get_signal g_pair ''cost'' = Inr [Num 0, Num 0]"
  by (simp add: get_signal_def gna_def check_node_attributes_def node_attr_names_def
      g_pair_unfolded nodes_def has_node_def node_val_def)


section \<open>Neighbour queries\<close>

text \<open>\<open>eud\<close> reads the components 0 and 1 of both vectors; a shorter vector is an \<open>IndexError\<close>.\<close>

definition eud :: "real list \<Rightarrow> real list \<Rightarrow> error + real" where
  "eud data1 data2 =
     (if length data1 < 2 \<or> length data2 < 2 then Inl IndexError
      else Inr (sqrt ((data1 ! 0 - data2 ! 0)\<^sup>2 + (data1 ! 1 - data2 ! 1)\<^sup>2)))"

text \<open>\<open>eud\<close> on the values \<open>gna\<close> hands out: only a vector can be indexed.\<close>

definition eud_val :: "val \<Rightarrow> val \<Rightarrow> error + real" where
  "eud_val v1 v2 =
     (case v1 of
        Vec a \<Rightarrow> (case v2 of Vec b \<Rightarrow> eud a b | _ \<Rightarrow> Inl TypeError)
      | _ \<Rightarrow> Inl TypeError)"

text \<open>
  A Python set or dictionary enumerates its keys in the order of its hash table, whatever the
  order they were put in. \<open>hash_order\<close> stands for that order: it takes the keys, listed in
  the order of \<open>G.nodes()\<close>, to the list in which the container built from them enumerates
  them. \<open>serch_set\<close> is \<open>set(self.G.nodes()) - {nid}\<close> so enumerated; in \<open>find_neighbors_k\<close>
  it is also the order of \<open>distances.items()\<close>.
\<close>

definition serch_set :: "(nat list \<Rightarrow> nat list) \<Rightarrow> state_graph \<Rightarrow> nat \<Rightarrow> nat list" where
  "serch_set hash_order g nid = hash_order (filter (\<lambda>n. n \<noteq> nid) (nodes g))"

definition find_neighbors_from_pose :: "state_graph \<Rightarrow> real list \<Rightarrow> real \<Rightarrow> error + nat list" where
  "find_neighbors_from_pose g loc distance =
     filterE (\<lambda>n. case gna g n ''data'' of
                     Inl e \<Rightarrow> Inl e
                   | Inr d \<Rightarrow> (case eud_val d (Vec loc) of
                                 Inl e \<Rightarrow> Inl e
                               | Inr x \<Rightarrow> Inr (x \<le> distance)))
       (nodes g)"

definition find_neighbors_range ::
  "(nat list \<Rightarrow> nat list) \<Rightarrow> state_graph \<Rightarrow> nat \<Rightarrow> real \<Rightarrow> error + nat list" where
  "find_neighbors_range hash_order g nid distance =
     (case gna g nid ''data'' of
        Inl e \<Rightarrow> Inl e
      | Inr cn \<Rightarrow>
          filterE (\<lambda>n. case gna g n ''data'' of
                          Inl e \<Rightarrow> Inl e
                        | Inr d \<Rightarrow> (case eud_val d cn of
                                      Inl e \<Rightarrow> Inl e
                                    | Inr x \<Rightarrow> Inr (x \<le> distance)))
            (serch_set hash_order g nid))"

text \<open>The slice \<open>xs[:k]\<close>: a negative \<open>k\<close> drops the last \<open>-k\<close> elements.\<close>

definition py_prefix :: "int \<Rightarrow> 'a list \<Rightarrow> 'a list" where
  "py_prefix k xs = (if 0 \<le> k then take (nat k) xs else take (length xs - nat (- k)) xs)"

definition find_neighbors_k ::
  "(nat list \<Rightarrow> nat list) \<Rightarrow> state_graph \<Rightarrow> nat \<Rightarrow> int \<Rightarrow> error + nat list" where
  "find_neighbors_k hash_order g nid k =
     (case gna g nid ''data'' of
        Inl e \<Rightarrow> Inl e
      | Inr cn \<Rightarrow>
          (case mapE (\<lambda>n. case gna g n ''data'' of
                            Inl e \<Rightarrow> Inl e
                          | Inr d \<Rightarrow> (case eud_val d cn of
                                        Inl e \<Rightarrow> Inl e
                                      | Inr x \<Rightarrow> Inr (n, x)))
                  (serch_set hash_order g nid) of
             Inl e \<Rightarrow> Inl e
           | Inr distances \<Rightarrow> Inr (map fst (py_prefix k (sort_key snd distances)))))"

text \<open>
  For the statements: the \<open>data\<close> vector of a node as a total function, and the distance
  \<open>eud\<close> returns when it returns.
\<close>

definition data_of :: "state_graph \<Rightarrow> nat \<Rightarrow> real list" where
  "data_of g n = (case map_of (g_nodes g) n of Some (Some a) \<Rightarrow> n_data a | _ \<Rightarrow> [])"

definition plane_dist :: "real list \<Rightarrow> real list \<Rightarrow> real" where
  "plane_dist a b = sqrt ((a ! 0 - b ! 0)\<^sup>2 + (a ! 1 - b ! 1)\<^sup>2)"

lemma eud_Inr: "eud a b = Inr x \<Longrightarrow> x = plane_dist a b"
  by (auto simp: eud_def plane_dist_def split: if_splits)

lemma gna_data_Inr: "gna g n ''data'' = Inr v \<Longrightarrow> v = Vec (data_of g n) \<and> has_node g n"
  by (auto simp: gna_def check_node_attributes_def data_of_def node_val_def
      split: sum.splits option.splits if_splits)

lemma mapE_Inr_map:
  "mapE f xs = Inr ys \<Longrightarrow> (\<And>x y. x \<in> set xs \<Longrightarrow> f x = Inr y \<Longrightarrow> y = h x) \<Longrightarrow> ys = map h xs"
  by (induction xs arbitrary: ys) (auto split: sum.splits)

lemma insort_key_tagged:
  "insort_key snd (x, d x) (map (\<lambda>n. (n, d n)) xs) = map (\<lambda>n. (n, d n)) (insort_key d x xs)"
  by (induction xs) auto

lemma sort_key_tagged:
  "sort_key snd (map (\<lambda>n. (n, d n)) xs) = map (\<lambda>n. (n, d n)) (sort_key d xs)"
  by (induction xs) (auto simp: insort_key_tagged)

lemma find_neighbors_k_sort_key:
  assumes "find_neighbors_k ho g nid k = Inr r"
  shows "r = py_prefix k (sort_key (\<lambda>n. plane_dist (data_of g n) (data_of g nid)) (serch_set ho g nid))
       \<and> has_node g nid"
proof -
  let ?d = "\<lambda>n. plane_dist (data_of g n) (data_of g nid)"
  let ?f = "\<lambda>n. case gna g n ''data'' of
                            Inl e \<Rightarrow> Inl e
                          | Inr d \<Rightarrow> (case eud_val d (Vec (data_of g nid)) of
                                        Inl e \<Rightarrow> Inl e
                                      | Inr x \<Rightarrow> Inr (n, x))"
  from assms obtain cn where cn: "gna g nid ''data'' = Inr cn"
    by (auto simp: find_neighbors_k_def split: sum.splits)
  then have cnv: "cn = Vec (data_of g nid)" and hn: "has_node g nid"
    using gna_data_Inr by blast+
  from assms cn cnv obtain ds where ds: "mapE ?f (serch_set ho g nid) = Inr ds"
    and r: "r = map fst (py_prefix k (sort_key snd ds))"
    by (auto simp: find_neighbors_k_def split: sum.splits)
  have "y = (n, ?d n)" if "?f n = Inr y" for n y
    using that by (auto simp: eud_val_def split: sum.splits val.splits dest!: gna_data_Inr eud_Inr)
  with ds have "ds = map (\<lambda>n. (n, ?d n)) (serch_set ho g nid)"
    by (intro mapE_Inr_map) auto
  with r have "r = map fst (py_prefix k (map (\<lambda>n. (n, ?d n)) (sort_key ?d (serch_set ho g nid))))"
    by (simp add: sort_key_tagged)
  then have "r = py_prefix k (sort_key ?d (serch_set ho g nid))"
    by (simp add: py_prefix_def take_map comp_def)
  with hn show ?thesis by simp
qed


lemma find_neighbors_range_excludes:
  assumes "find_neighbors_range hash_order g nid distance = Inr ns"
    and "\<And>xs. set (hash_order xs) \<subseteq> set xs"
  shows "nid \<notin> set ns"
proof -
  from assms(1) have "set ns \<subseteq> set (serch_set hash_order g nid)"
    by (auto simp: find_neighbors_range_def split: sum.splits dest: filterE_subset)
  moreover have "nid \<notin> set (serch_set hash_order g nid)"
    using assms(2) [of "filter (\<lambda>n. n \<noteq> nid) (nodes g)"] by (auto simp: serch_set_def)
  ultimately show ?thesis by blast
qed

text \<open>
  Claim C6. The range query by id is said to include the queried node. The docstring of
  \<open>find_neighbors_range\<close> says so too, but the code removes \<open>nid\<close> from the search set
  first: on the graph with node 0 at (0, 0) and node 1 at (2, 0), the query for node 0 with
  radius 5 returns node 1 alone, while the query by position at (0, 0) returns both.
\<close>

theorem find_neighbors_range_omits_self:
  "find_neighbors_range (\<lambda>xs. xs) g_pair 0 5 = Inr [1]
   \<and> find_neighbors_from_pose g_pair [0, 0] 5 = Inr [0, 1]"
  by (simp add: find_neighbors_range_def find_neighbors_from_pose_def gna_def
      check_node_attributes_def node_attr_names_def g_pair_unfolded nodes_def has_node_def
      node_val_def serch_set_def eud_val_def eud_def)

subsection \<open>The nearest neighbours\<close>

text \<open>
  The ranking as the specification words it, to compare with: all other nodes, in the order
  of the node list, sorted stably by the Euclidean distance over the whole \<open>data\<close> vectors.
\<close>

definition full_dist :: "real list \<Rightarrow> real list \<Rightarrow> real" where
  "full_dist a b = sqrt (\<Sum>p\<leftarrow>zip a b. (fst p - snd p)\<^sup>2)"

definition k_nearest_spec :: "state_graph \<Rightarrow> nat \<Rightarrow> nat \<Rightarrow> nat list" where
  "k_nearest_spec g nid k =
     take k (sort_key (\<lambda>n. full_dist (data_of g n) (data_of g nid))
                      (filter (\<lambda>n. n \<noteq> nid) (nodes g)))"

text \<open>Four nodes with 4-dimensional states; node 2 differs from node 0 in component 2 only.\<close>

definition g_plane :: state_graph where
  "g_plane = with_node 3 [0, 2, 0, 0] (with_node 2 [0, 0, 2, 0] (with_node 1 [1, 0, 0, 0]
              (with_node 0 [0, 0, 0, 0] (empty_graph 4))))"

lemma g_plane_unfolded:
  "g_plane = \<lparr>g_nodes =
       [(0, Some \<lparr>n_data = [0, 0, 0, 0], n_cost = 0, n_priority = 0, n_Q = [], n_V = 0, n_pi = 0,
                   n_type = ''simple''\<rparr>),
        (1, Some \<lparr>n_data = [1, 0, 0, 0], n_cost = 0, n_priority = 0, n_Q = [], n_V = 0, n_pi = 0,
                   n_type = ''simple''\<rparr>),
        (2, Some \<lparr>n_data = [0, 0, 2, 0], n_cost = 0, n_priority = 0, n_Q = [], n_V = 0, n_pi = 0,
                   n_type = ''simple''\<rparr>),
        (3, Some \<lparr>n_data = [0, 2, 0, 0], n_cost = 0, n_priority = 0, n_Q = [], n_V = 0, n_pi = 0,
                   n_type = ''simple''\<rparr>)],
     g_edges = [], state_dim = 4\<rparr>"
  by (simp add: g_plane_def with_node_def empty_graph_def add_node_def
      graph_after_def has_node_def nodes_def)

lemma map_py_prefix: "map f (py_prefix k xs) = py_prefix k (map f xs)"
  by (simp add: py_prefix_def take_map)

text \<open>
  The order in which CPython enumerates a set of a few small integers. An integer is its own
  hash, and a set of up to four integers below 8 keeps each in the slot of its value, in a
  table of 8 slots that it enumerates from slot 0 upwards: in ascending order, whatever the
  order of insertion. The dictionary built from the set receives its keys in that order.
\<close>

definition small_int_set_order :: "nat list \<Rightarrow> nat list" where
  "small_int_set_order xs = sort xs"

text \<open>
  Three nodes added in the order 0, 5, 1: the nodes 5 and 1 are both at distance 1 from
  node 0.
\<close>

definition g_tie :: state_graph where
  "g_tie = with_node 1 [0, 1] (with_node 5 [1, 0] (with_node 0 [0, 0] (empty_graph 2)))"

lemma g_tie_unfolded:
  "g_tie = \<lparr>g_nodes =
       [(0, Some \<lparr>n_data = [0, 0], n_cost = 0, n_priority = 0, n_Q = [], n_V = 0, n_pi = 0,
                   n_type = ''simple''\<rparr>),
        (5, Some \<lparr>n_data = [1, 0], n_cost = 0, n_priority = 0, n_Q = [], n_V = 0, n_pi = 0,
                   n_type = ''simple''\<rparr>),
        (1, Some \<lparr>n_data = [0, 1], n_cost = 0, n_priority = 0, n_Q = [], n_V = 0, n_pi = 0,
                   n_type = ''simple''\<rparr>)],
     g_edges = [], state_dim = 2\<rparr>"
  by (simp add: g_tie_def with_node_def empty_graph_def add_node_def
      graph_after_def has_node_def nodes_def)

lemma find_neighbors_k_g_plane:
  "find_neighbors_k small_int_set_order g_plane 0 k = Inr (py_prefix k [2, 1, 3])"
  by (simp add: find_neighbors_k_def gna_def check_node_attributes_def node_attr_names_def
      g_plane_unfolded nodes_def has_node_def node_val_def serch_set_def eud_val_def eud_def
      map_py_prefix small_int_set_order_def)

lemma k_nearest_spec_g_plane: "k_nearest_spec g_plane 0 (Suc 0) = [1]"
  by (simp add: k_nearest_spec_def full_dist_def data_of_def g_plane_unfolded nodes_def)

lemma find_neighbors_k_g_tie:
  "find_neighbors_k small_int_set_order g_tie 0 k = Inr (py_prefix k [1, 5])"
  by (simp add: find_neighbors_k_def gna_def check_node_attributes_def node_attr_names_def
      g_tie_unfolded nodes_def has_node_def node_val_def serch_set_def eud_val_def eud_def
      map_py_prefix small_int_set_order_def)

lemma k_nearest_spec_g_tie: "k_nearest_spec g_tie 0 2 = [5, 1]"
  by (simp add: k_nearest_spec_def full_dist_def data_of_def g_tie_unfolded nodes_def)

text \<open>
  What \<open>eud\<close> needs of a graph: every node carries the attributes of \<open>add_node\<close>, with a
  \<open>data\<close> vector of at least two components.
\<close>

definition planar_data :: "state_graph \<Rightarrow> bool" where
  "planar_data g =
     list_all (\<lambda>e. case snd e of None \<Rightarrow> False | Some b \<Rightarrow> 2 \<le> length (n_data b)) (g_nodes g)"

lemma planar_data_gna:
  assumes "planar_data g" and "n \<in> set (nodes g)"
  shows "gna g n ''data'' = Inr (Vec (data_of g n)) \<and> 2 \<le> length (data_of g n)"
proof -
  from assms(2) have "map_of (g_nodes g) n \<noteq> None"
    by (simp add: nodes_def map_of_eq_None_iff)
  then obtain a where m: "map_of (g_nodes g) n = Some a" by blast
  then have "(n, a) \<in> set (g_nodes g)" by (rule map_of_SomeD)
  with assms(1) obtain b where b: "a = Some b" "2 \<le> length (n_data b)"
    by (cases a) (auto simp: planar_data_def list_all_iff)
  with m assms(2) show ?thesis
    by (simp add: gna_def check_node_attributes_def node_attr_names_def has_node_def
        node_val_def data_of_def)
qed

lemma find_neighbors_k_total:
  assumes pd: "planar_data g" and nid: "has_node g nid"
    and perm: "\<And>xs. mset (hash_order xs) = mset xs"
  shows "find_neighbors_k hash_order g nid k =
     Inr (py_prefix k (sort_key (\<lambda>n. plane_dist (data_of g n) (data_of g nid))
                                (serch_set hash_order g nid)))"
proof -
  let ?d = "\<lambda>n. plane_dist (data_of g n) (data_of g nid)"
  let ?ss = "serch_set hash_order g nid"
  from nid have cn: "gna g nid ''data'' = Inr (Vec (data_of g nid))"
    and cl: "2 \<le> length (data_of g nid)"
    using planar_data_gna [OF pd] by (simp_all add: has_node_def)
  have "set ?ss = set (filter (\<lambda>n. n \<noteq> nid) (nodes g))"
    unfolding serch_set_def using perm by (rule mset_eq_setD)
  then have sub: "set ?ss \<subseteq> set (nodes g)" by auto
  have each: "(case gna g n ''data'' of
                 Inl e \<Rightarrow> Inl e
               | Inr d \<Rightarrow> (case eud_val d (Vec (data_of g nid)) of
                             Inl e \<Rightarrow> Inl e
                           | Inr x \<Rightarrow> Inr (n, x))) = Inr (n, ?d n)"
    if "n \<in> set ?ss" for n
  proof -
    from that sub have "n \<in> set (nodes g)" by blast
    from planar_data_gna [OF pd this] cl show ?thesis
      by (simp add: eud_val_def eud_def plane_dist_def)
  qed
  have "mapE (\<lambda>n. case gna g n ''data'' of
                 Inl e \<Rightarrow> Inl e
               | Inr d \<Rightarrow> (case eud_val d (Vec (data_of g nid)) of
                             Inl e \<Rightarrow> Inl e
                           | Inr x \<Rightarrow> Inr (n, x))) ?ss
        = Inr (map (\<lambda>n. (n, ?d n)) ?ss)"
    by (rule mapE_total) (rule each)
  then show ?thesis
    by (simp add: find_neighbors_k_def cn sort_key_tagged map_py_prefix comp_def)
qed

text \<open>
  Claim C7, as amended. On a graph whose nodes all carry a \<open>data\<close> vector of at least two
  components, for every node id present in the graph and every \<open>k \<ge> 0\<close>,
  \<open>find_neighbors_k\<close> returns the first \<open>k\<close> elements of a list \<open>full\<close> that holds exactly
  the other nodes, ascending in the Euclidean distance over the components 0 and 1 of
  \<open>data\<close> (the distance \<open>eud\<close> computes), with nodes of equal distance in the order in
  which the set of the other nodes enumerates them; and for \<open>k\<close> at least the number of nodes
  minus one it returns all of \<open>full\<close>.
\<close>

theorem find_neighbors_k_ranks:
  assumes pd: "planar_data g" and nid: "has_node g nid"
    and k: "0 \<le> k"
    and perm: "\<And>xs. mset (hash_order xs) = mset xs"
  shows "\<exists>full.
      find_neighbors_k hash_order g nid k = Inr (take (nat k) full)
    \<and> (int (length (nodes g)) - 1 \<le> k \<longrightarrow> find_neighbors_k hash_order g nid k = Inr full)
    \<and> mset full = mset (filter (\<lambda>n. n \<noteq> nid) (nodes g))
    \<and> sorted (map (\<lambda>n. plane_dist (data_of g n) (data_of g nid)) full)
    \<and> (\<forall>x. filter (\<lambda>n. plane_dist (data_of g n) (data_of g nid) = x) full
           = filter (\<lambda>n. plane_dist (data_of g n) (data_of g nid) = x)
               (serch_set hash_order g nid))"
proof -
  let ?d = "\<lambda>n. plane_dist (data_of g n) (data_of g nid)"
  let ?ss = "serch_set hash_order g nid"
  let ?full = "sort_key ?d ?ss"
  from find_neighbors_k_total [OF pd nid perm] k
  have 1: "find_neighbors_k hash_order g nid k = Inr (take (nat k) ?full)"
    by (simp add: py_prefix_def)
  have ms: "mset ?ss = mset (filter (\<lambda>n. n \<noteq> nid) (nodes g))"
    by (simp add: serch_set_def perm)
  from nid have "length (filter (\<lambda>n. n \<noteq> nid) (nodes g)) < length (nodes g)"
    by (auto simp: has_node_def intro: length_filter_less)
  moreover have "length ?ss = length (filter (\<lambda>n. n \<noteq> nid) (nodes g))"
    using ms by (metis size_mset)
  ultimately have len: "length ?full \<le> length (nodes g) - 1"
    by simp
  have 2: "int (length (nodes g)) - 1 \<le> k \<longrightarrow> find_neighbors_k hash_order g nid k = Inr ?full"
    using 1 len by auto
  have 3: "mset ?full = mset (filter (\<lambda>n. n \<noteq> nid) (nodes g))"
    using ms by simp
  have 4: "sorted (map ?d ?full)"
    by (rule sorted_sort_key)
  have 5: "\<forall>x. filter (\<lambda>n. ?d n = x) ?full = filter (\<lambda>n. ?d n = x) ?ss"
    by (simp add: sort_key_stable)
  from 1 2 3 4 5 show ?thesis by blast
qed

text \<open>
  On the graph with the tie, in CPython's order of the set \<open>{5, 1}\<close>: both other nodes are
  at distance 1 and come out as the set enumerates them, node 1 before node 5.
\<close>

theorem find_neighbors_k_ranks_witness:
  "find_neighbors_k small_int_set_order g_tie 0 2 = Inr [1, 5]
   \<and> (\<exists>full. Inr [1, 5] = (Inr (take 2 full) :: error + nat list)
        \<and> mset full = mset [5, 1::nat]
        \<and> sorted (map (\<lambda>n. plane_dist (data_of g_tie n) (data_of g_tie 0)) full)
        \<and> filter (\<lambda>n. plane_dist (data_of g_tie n) (data_of g_tie 0) = 1) full = [1, 5])"
proof -
  have ok: "find_neighbors_k small_int_set_order g_tie 0 2 = Inr [1, 5]"
    by (simp add: find_neighbors_k_g_tie py_prefix_def)
  have pd: "planar_data g_tie"
    by (simp add: planar_data_def g_tie_unfolded)
  have nid: "has_node g_tie 0"
    by (simp add: has_node_def nodes_def g_tie_unfolded)
  have perm: "mset (small_int_set_order xs) = mset xs" for xs
    by (simp add: small_int_set_order_def)
  have fl: "filter (\<lambda>n. n \<noteq> 0) (nodes g_tie) = [5, 1]"
    by (simp add: g_tie_unfolded nodes_def)
  have ss: "serch_set small_int_set_order g_tie 0 = [1, 5]"
    by (simp add: serch_set_def small_int_set_order_def g_tie_unfolded nodes_def)
  have d: "plane_dist (data_of g_tie 1) (data_of g_tie 0) = 1"
    "plane_dist (data_of g_tie 5) (data_of g_tie 0) = 1"
    by (simp_all add: plane_dist_def data_of_def g_tie_unfolded)
  from find_neighbors_k_ranks [OF pd nid _ perm, of 2] obtain full where
    "find_neighbors_k small_int_set_order g_tie 0 2 = Inr (take (nat 2) full)"
    "mset full = mset (filter (\<lambda>n. n \<noteq> 0) (nodes g_tie))"
    "sorted (map (\<lambda>n. plane_dist (data_of g_tie n) (data_of g_tie 0)) full)"
    "filter (\<lambda>n. plane_dist (data_of g_tie n) (data_of g_tie 0) = 1) full
       = filter (\<lambda>n. plane_dist (data_of g_tie n) (data_of g_tie 0) = 1)
           (serch_set small_int_set_order g_tie 0)"
    by auto
  with ok fl ss d have "Inr [1, 5] = (Inr (take 2 full) :: error + nat list)
        \<and> mset full = mset [5, 1::nat]
        \<and> sorted (map (\<lambda>n. plane_dist (data_of g_tie n) (data_of g_tie 0)) full)
        \<and> filter (\<lambda>n. plane_dist (data_of g_tie n) (data_of g_tie 0) = 1) full = [1, 5]"
    by simp
  then have "\<exists>full. Inr [1, 5] = (Inr (take 2 full) :: error + nat list)
        \<and> mset full = mset [5, 1::nat]
        \<and> sorted (map (\<lambda>n. plane_dist (data_of g_tie n) (data_of g_tie 0)) full)
        \<and> filter (\<lambda>n. plane_dist (data_of g_tie n) (data_of g_tie 0) = 1) full = [1, 5]"
    by (rule exI)
  with ok show ?thesis by (rule conjI)
qed

text \<open>
  Claim C7, as stated, ranks by the distance over the full \<open>data\<close> vectors and breaks ties
  by the order of insertion. With the default 4-dimensional states the distances differ:
  from node 0, node 1 is at distance 1 either way, node 2 at distance 0 for \<open>eud\<close> and at
  distance 2 over the full vectors, so the nearest neighbour is node 2 for the code and
  node 1 for the stated ranking. And on the graph with the tie, where node 5 was added
  before node 1, the code returns node 1 first, as the set enumerates them, where the
  stated ranking has node 5 first.
\<close>

theorem find_neighbors_k_not_full_distance:
  "find_neighbors_k small_int_set_order g_plane 0 1 = Inr [2]
   \<and> k_nearest_spec g_plane 0 1 = [1]
   \<and> find_neighbors_k small_int_set_order g_plane 0 1 \<noteq> Inr (k_nearest_spec g_plane 0 1)
   \<and> find_neighbors_k small_int_set_order g_tie 0 2 = Inr [1, 5]
   \<and> k_nearest_spec g_tie 0 2 = [5, 1]
   \<and> find_neighbors_k small_int_set_order g_tie 0 2 \<noteq> Inr (k_nearest_spec g_tie 0 2)"
  by (simp add: find_neighbors_k_g_plane k_nearest_spec_g_plane find_neighbors_k_g_tie
      k_nearest_spec_g_tie py_prefix_def)

section \<open>Path search\<close>

text \<open>
  The function \<open>metric\<close> that \<open>search_path\<close> defines and hands to \<open>nx.astar_path\<close> as the
  heuristic. It is a closure over \<open>source\<close> and \<open>target\<close> of the enclosing call; the nodes
  \<open>a\<close> and \<open>b\<close> the search passes in are not read.
\<close>

definition metric :: "state_graph \<Rightarrow> nat \<Rightarrow> nat \<Rightarrow> nat \<Rightarrow> nat \<Rightarrow> error + real" where
  "metric g source target a b =
     (if edge_exists g source target
      then (case gea g source target ''reward'' of
              Inl e \<Rightarrow> Inl e
            | Inr (Num r) \<Rightarrow> Inr (- 1 * r)
            | Inr _ \<Rightarrow> Inl TypeError)
      else Inr 1000)"

text \<open>
  The search itself is the library's: \<open>astar\<close> stands for \<open>nx.astar_path\<close>, taking the
  graph, the end points and the heuristic.
\<close>

definition search_path ::
  "(state_graph \<Rightarrow> nat \<Rightarrow> nat \<Rightarrow> (nat \<Rightarrow> nat \<Rightarrow> error + real) \<Rightarrow> error + nat list)
     \<Rightarrow> state_graph \<Rightarrow> nat \<Rightarrow> nat \<Rightarrow> error + nat list" where
  "search_path astar g source target = astar g source target (metric g source target)"

lemma map_of_edge_exists:
  "edge_exists g s t \<longleftrightarrow> map_of (g_edges g) (s, t) \<noteq> None"
  by (simp add: edge_exists_def all_edges_def map_of_eq_None_iff)

text \<open>
  Claim C10. The heuristic \<open>search_path source target\<close> supplies to the search is one
  constant function: on every pair of nodes it is minus the \<open>reward\<close> of the edge from
  \<open>source\<close> to \<open>target\<close> when the graph has that edge, and 1000 when it has not.
\<close>

theorem search_path_metric_constant:
  "search_path astar g source target =
     astar g source target
       (\<lambda>a b. case map_of (g_edges g) (source, target) of
                 Some e \<Rightarrow> Inr (- e_reward e)
               | None \<Rightarrow> Inr 1000)"
proof -
  have "metric g source target a b =
      (case map_of (g_edges g) (source, target) of
         Some e \<Rightarrow> Inr (- e_reward e) | None \<Rightarrow> Inr 1000)" for a b
    by (cases "map_of (g_edges g) (source, target)")
      (simp_all add: metric_def map_of_edge_exists gea_def check_edge_attributes_def
        edge_attr_names_def edge_val_def)
  then have "metric g source target =
      (\<lambda>a b. case map_of (g_edges g) (source, target) of
                Some e \<Rightarrow> Inr (- e_reward e) | None \<Rightarrow> Inr 1000)"
    by (intro ext)
  then show ?thesis
    by (simp add: search_path_def)
qed

text \<open>
  On the graph with the single edge from 0 to 1 of reward 1/2, with a search that asks the
  heuristic about the pair (5, 7) alone and returns the end points when the answer is the
  expected one: \<open>- 1/2\<close> for the search from 0 to 1, 1000 for the search from 1 to 0.
\<close>

theorem search_path_metric_constant_witness:
  "search_path (\<lambda>g s t h. if h 5 7 = Inr (- 1 / 2) then Inr [s, t] else Inl NetworkXError)
     g_pair 0 1 = Inr [0, 1]
   \<and> search_path (\<lambda>g s t h. if h 5 7 = Inr 1000 then Inr [s, t] else Inl NetworkXError)
     g_pair 1 0 = Inr [1, 0]"
proof -
  have "search_path (\<lambda>g s t h. if h 5 7 = Inr (- 1 / 2) then Inr [s, t] else Inl NetworkXError)
     g_pair 0 1 = Inr [0, 1]"
    by (simp add: search_path_metric_constant g_pair_unfolded)
  moreover have
    "search_path (\<lambda>g s t h. if h 5 7 = Inr 1000 then Inr [s, t] else Inl NetworkXError)
     g_pair 1 0 = Inr [1, 0]"
    by (simp add: search_path_metric_constant g_pair_unfolded)
  ultimately show ?thesis by (rule conjI)
qed


section \<open>Trajectory quality (\<open>sirl/algorithms/birl/base.py\<close>)\<close>

text \<open>
  \<open>G.out_edges(n)\<close> of the library version the code is written for (the one with
  \<open>G.node\<close> and \<open>G.edge\<close>): the list of the edges leaving \<open>n\<close>, and a \<open>NetworkXError\<close> for a
  node that is not in the graph.
\<close>

definition out_edges :: "state_graph \<Rightarrow> nat \<Rightarrow> error + (nat \<times> nat) list" where
  "out_edges g nid =
     (if \<not> has_node g nid then Inl NetworkXError
      else Inr (filter (\<lambda>e. fst e = nid) (all_edges g)))"

text \<open>List indexing: a negative index counts from the end, an index out of range raises.\<close>

definition py_index :: "'a list \<Rightarrow> int \<Rightarrow> error + 'a" where
  "py_index xs i =
     (if 0 \<le> i \<and> i < int (length xs) then Inr (xs ! nat i)
      else if i < 0 \<and> - int (length xs) \<le> i then Inr (xs ! nat (int (length xs) + i))
      else Inl IndexError)"

text \<open>\<open>np.dot\<close> of two vectors: vectors of different lengths are a \<open>ValueError\<close>.\<close>

definition np_dot :: "real list \<Rightarrow> real list \<Rightarrow> error + real" where
  "np_dot a b =
     (if length a \<noteq> length b then Inl ValueError
      else Inr (\<Sum>p\<leftarrow>zip a b. fst p * snd p))"

text \<open>
  \<open>x ** y\<close> on floats, over the reals: anything to the power 0 is 1, zero to a negative
  power is a \<open>ZeroDivisionError\<close>, a negative base with a fractional exponent a
  \<open>ValueError\<close>.
\<close>

definition py_pow :: "real \<Rightarrow> real \<Rightarrow> error + real" where
  "py_pow x y =
     (if y = 0 then Inr 1
      else if 0 < x then Inr (x powr y)
      else if x = 0 then (if 0 < y then Inr 0 else Inl ZeroDivisionError)
      else if y = of_int \<lfloor>y\<rfloor> then Inr (x powi \<lfloor>y\<rfloor>)
      else Inl ValueError)"

text \<open>The terminal constant, a local of the evaluator.\<close>

definition gr :: real where
  "gr = 100"

text \<open>
  The inner loop of \<open>_expert_trajectory_quality\<close> over the nodes of one trajectory, with
  its two accumulators \<open>time\<close> and \<open>QE\<close>. The loop goes on after a node without outgoing
  edges.
\<close>

fun trajectory_quality ::
  "state_graph \<Rightarrow> real \<Rightarrow> real list \<Rightarrow> nat list \<Rightarrow> real \<Rightarrow> real \<Rightarrow> error + real" where
  "trajectory_quality G gamma reward [] time QE = Inr QE"
| "trajectory_quality G gamma reward (n # traj) time QE =
     (case out_edges G n of
        Inl e \<Rightarrow> Inl e
      | Inr actions \<Rightarrow>
          if actions \<noteq> [] then
            (case gna G n ''pi'' of
               Inl e \<Rightarrow> Inl e
             | Inr (Idx p) \<Rightarrow>
                 (case py_index actions p of
                    Inl e \<Rightarrow> Inl e
                  | Inr e \<Rightarrow>
                      (case gea G (fst e) (snd e) ''phi'' of
                         Inl e \<Rightarrow> Inl e
                       | Inr (Vec phi) \<Rightarrow>
                           (case np_dot reward phi of
                              Inl e \<Rightarrow> Inl e
                            | Inr r \<Rightarrow>
                                (case py_pow gamma time of
                                   Inl e \<Rightarrow> Inl e
                                 | Inr gt \<Rightarrow>
                                     (case gea G (fst e) (snd e) ''duration'' of
                                        Inl e \<Rightarrow> Inl e
                                      | Inr (Num d) \<Rightarrow>
                                          trajectory_quality G gamma reward traj (time + d)
                                            (QE + gt * r)
                                      | Inr _ \<Rightarrow> Inl TypeError)))
                       | Inr _ \<Rightarrow> Inl TypeError))
             | Inr _ \<Rightarrow> Inl TypeError)
          else
            (case py_pow gamma time of
               Inl e \<Rightarrow> Inl e
             | Inr gt \<Rightarrow> trajectory_quality G gamma reward traj time (QE + gt * gr)))"

text \<open>
  The outer loop: one quality per demonstration. The graph, the discount \<open>gamma\<close> and the
  demonstrations are what the solver holds in \<open>self._rep\<close> and \<open>self._demos\<close>.
\<close>

definition expert_trajectory_quality ::
  "state_graph \<Rightarrow> real \<Rightarrow> nat list list \<Rightarrow> real list \<Rightarrow> error + real list" where
  "expert_trajectory_quality G gamma demos reward =
     mapE (\<lambda>traj. trajectory_quality G gamma reward traj 0 0) demos"

text \<open>
  Claim C9. For every reward vector and every discount, the quality of the one trajectory
  that consists of a single node without outgoing edges is exactly the terminal constant
  100: the elapsed time is 0, so nothing is discounted.
\<close>

theorem terminal_trajectory_quality:
  assumes "out_edges G n = Inr []"
  shows "expert_trajectory_quality G gamma [[n]] reward = Inr [100]"
  using assms by (simp add: expert_trajectory_quality_def py_pow_def gr_def)

lemma out_edges_g_pair: "out_edges g_pair (Suc 0) = Inr []" "out_edges g_pair 0 = Inr [(0, 1)]"
  by (simp_all add: out_edges_def g_pair_unfolded has_node_def nodes_def all_edges_def)

theorem terminal_trajectory_quality_witness:
  "out_edges g_pair 1 = Inr [] \<and> expert_trajectory_quality g_pair (9 / 10) [[1]] [1, 0] = Inr [100]"
  using terminal_trajectory_quality [of g_pair 1 "9 / 10" "[1, 0]"] out_edges_g_pair(1) by simp

text \<open>
  For comparison, a demonstration with a step before the terminal node: reward 1 on the
  edge, then the terminal constant discounted over the edge's duration 1.
\<close>

lemma g_pair_reads:
  "gna g_pair 0 ''pi'' = Inr (Idx 0)"
  "gea g_pair 0 (Suc 0) ''phi'' = Inr (Vec [1, 0])"
  "gea g_pair 0 (Suc 0) ''duration'' = Inr (Num 1)"
  by (simp_all add: gna_def check_node_attributes_def node_attr_names_def has_node_def nodes_def
      node_val_def gea_def check_edge_attributes_def edge_attr_names_def edge_exists_def
      all_edges_def edge_val_def g_pair_unfolded)

lemma two_step_quality:
  "expert_trajectory_quality g_pair (9 / 10) [[0, 1], [1]] [1, 0] = Inr [91, 100]"
  by (simp add: expert_trajectory_quality_def out_edges_g_pair g_pair_reads py_pow_def gr_def
      py_index_def np_dot_def)


section \<open>The PolicyWalk proposal\<close>

text \<open>
  \<open>PolicyWalkProposal\<close> of \<open>birl/base.py\<close> and of \<open>graph_birl.py\<close>: the same fields, and
  the same \<open>__call__\<close> up to the list \<open>choice\<close> draws the step from.
\<close>

record policy_walk_proposal =
  pw_dim :: nat
  pw_delta :: real
  pw_bounded :: bool

text \<open>
  \<open>new_loc = np.array(loc)\<close> copies the vector and keeps the element type it finds: a vector
  of integers becomes an integer array, any other a float array (floats are taken over the
  reals). Reading an element gives its value; storing a value into an integer array keeps
  its integer part, rounding towards zero.
\<close>

datatype ndarray = IntArr "int list" | FloatArr "real list"

definition py_trunc :: "real \<Rightarrow> int" where
  "py_trunc v = (if 0 \<le> v then \<lfloor>v\<rfloor> else \<lceil>v\<rceil>)"

definition arr_vals :: "ndarray \<Rightarrow> real list" where
  "arr_vals a = (case a of IntArr zs \<Rightarrow> map of_int zs | FloatArr xs \<Rightarrow> xs)"

definition arr_len :: "ndarray \<Rightarrow> nat" where
  "arr_len a = length (arr_vals a)"

definition arr_get :: "ndarray \<Rightarrow> nat \<Rightarrow> real" where
  "arr_get a i = arr_vals a ! i"

definition arr_set :: "ndarray \<Rightarrow> nat \<Rightarrow> real \<Rightarrow> ndarray" where
  "arr_set a i v =
     (case a of
        IntArr zs \<Rightarrow> IntArr (zs[i := py_trunc v])
      | FloatArr xs \<Rightarrow> FloatArr (xs[i := v]))"

definition in_box :: "ndarray \<Rightarrow> bool" where
  "in_box a = list_all (\<lambda>x. - 1 \<le> x \<and> x \<le> 1) (arr_vals a)"

text \<open>
  What \<open>choice([-delta, delta])\<close> and \<open>choice([-delta, 0, delta])\<close> can return: the position
  drawn, and the step that stands there.
\<close>

datatype sign = Neg | Pos


definition choice2 :: "real \<Rightarrow> sign \<Rightarrow> real" where
  "choice2 delta c = (case c of Neg \<Rightarrow> - delta | Pos \<Rightarrow> delta)"


text \<open>
  The random draws of a call are its input: the list of the pairs \<open>(c, i)\<close> that the
  successive iterations of the \<open>while\<close> loop obtain from \<open>choice\<close> and \<open>randint(dim)\<close>.
  The loop has no bound of its own, so a call that has used up the draws it was given
  without accepting one is still running: \<open>None\<close>. \<open>randint(0)\<close> is a \<open>ValueError\<close>, an index
  beyond the vector an \<open>IndexError\<close>. The test reads \<open>new_loc[i] + d\<close>; the update
  \<open>new_loc[i] += d\<close> stores that sum into the array.
\<close>

fun policy_walk_base ::
  "policy_walk_proposal \<Rightarrow> (sign \<times> nat) list \<Rightarrow> ndarray \<Rightarrow> (error + ndarray) option" where
  "policy_walk_base p [] new_loc = None"
| "policy_walk_base p ((c, i) # draws) new_loc =
     (let d = choice2 (pw_delta p) c in
      if pw_dim p = 0 then Some (Inl ValueError)
      else if \<not> i < arr_len new_loc then Some (Inl IndexError)
      else if pw_bounded p then
        (if - 1 \<le> arr_get new_loc i + d \<and> arr_get new_loc i + d \<le> 1
         then Some (Inr (arr_set new_loc i (arr_get new_loc i + d)))
         else policy_walk_base p draws new_loc)
      else Some (Inr (arr_set new_loc i (arr_get new_loc i + d))))"


text \<open>Both are one loop over the steps drawn.\<close>

fun walk_loop ::
  "policy_walk_proposal \<Rightarrow> (real \<times> nat) list \<Rightarrow> ndarray \<Rightarrow> (error + ndarray) option" where
  "walk_loop p [] new_loc = None"
| "walk_loop p ((d, i) # draws) new_loc =
     (if pw_dim p = 0 then Some (Inl ValueError)
      else if \<not> i < arr_len new_loc then Some (Inl IndexError)
      else if pw_bounded p then
        (if - 1 \<le> arr_get new_loc i + d \<and> arr_get new_loc i + d \<le> 1
         then Some (Inr (arr_set new_loc i (arr_get new_loc i + d)))
         else walk_loop p draws new_loc)
      else Some (Inr (arr_set new_loc i (arr_get new_loc i + d))))"

lemma policy_walk_base_loop:
  "policy_walk_base p draws loc =
     walk_loop p (map (\<lambda>(c, i). (choice2 (pw_delta p) c, i)) draws) loc"
  by (induction draws) (auto simp: Let_def)














text \<open>
  The call returns as soon as a draw is acceptable; with a step larger than the width of
  the box no draw ever is, and the call never returns, whatever the draws.
\<close>

lemma policy_walk_base_accepts_first:
  assumes "pw_dim p \<noteq> 0" "i < arr_len loc"
    and "- 1 \<le> arr_get loc i + choice2 (pw_delta p) c"
    and "arr_get loc i + choice2 (pw_delta p) c \<le> 1"
  shows "policy_walk_base p ((c, i) # draws) loc
           = Some (Inr (arr_set loc i (arr_get loc i + choice2 (pw_delta p) c)))"
  using assms by (simp add: Let_def)

lemma walk_loop_never_returns:
  assumes "pw_bounded p" "pw_dim p \<noteq> 0" "in_box loc"
    and "\<forall>(d, i) \<in> set draws. i < arr_len loc \<and> 2 < \<bar>d\<bar>"
  shows "walk_loop p draws loc = None"
  using assms(4)
proof (induction draws)
  case Nil
  then show ?case by simp
next
  case (Cons a draws)
  obtain d i where a: "a = (d, i)" by (cases a)
  with Cons.prems have i: "i < arr_len loc" and d: "2 < \<bar>d\<bar>" by auto
  from i assms(3) have "- 1 \<le> arr_get loc i \<and> arr_get loc i \<le> 1"
    by (simp add: in_box_def arr_len_def arr_get_def list_all_length)
  with d have "\<not> (- 1 \<le> arr_get loc i + d \<and> arr_get loc i + d \<le> 1)" by auto
  with Cons a i assms(1,2) show ?case by simp
qed

lemma policy_walk_base_never_returns:
  assumes "pw_bounded p" "pw_dim p \<noteq> 0" "in_box loc"
    and "2 < pw_delta p" and "\<forall>(c, i) \<in> set draws. i < arr_len loc"
  shows "policy_walk_base p draws loc = None"
proof -
  have "\<bar>choice2 (pw_delta p) c\<bar> = \<bar>pw_delta p\<bar>" for c
    by (cases c) (simp_all add: choice2_def)
  with assms(4,5) have
    "\<forall>(d, i) \<in> set (map (\<lambda>(c, i). (choice2 (pw_delta p) c, i)) draws). i < arr_len loc \<and> 2 < \<bar>d\<bar>"
    by auto
  from walk_loop_never_returns [OF assms(1-3) this] show ?thesis
    by (simp add: policy_walk_base_loop)
qed

section \<open>Reward priors\<close>

text \<open>
  The three priors of \<open>birl/base.py\<close>, on a batch of rewards over the reals: each computes
  its weights \<open>rp\<close> and divides them by their sum. (Where the sum is 0 the floats give
  \<open>nan\<close>; the statements below keep to batches and \<open>sigma\<close> where it is not.)
\<close>

definition uniform_prior :: "real list \<Rightarrow> real list" where
  "uniform_prior r =
     (let rp = replicate (length r) 1 in map (\<lambda>x. x / sum_list rp) rp)"

definition gaussian_prior :: "real \<Rightarrow> real list \<Rightarrow> real list" where
  "gaussian_prior sigma r =
     (let rp = map (\<lambda>x. exp (- x\<^sup>2 / (2 * sigma\<^sup>2)) / sqrt (2 * pi) * sigma) r
      in map (\<lambda>x. x / sum_list rp) rp)"

definition laplacian_prior :: "real \<Rightarrow> real list \<Rightarrow> real list" where
  "laplacian_prior sigma r =
     (let rp = map (\<lambda>x. exp (- \<bar>x\<bar> / (2 * sigma)) / (2 * sigma)) r
      in map (\<lambda>x. x / sum_list rp) rp)"

text \<open>
  The three priors of the same names in \<open>graph_birl.py\<close>: the uniform one returns its
  argument, the other two their weights, undivided.
\<close>

definition graph_uniform_prior :: "real list \<Rightarrow> real list" where
  "graph_uniform_prior r = r"

definition graph_gaussian_prior :: "real \<Rightarrow> real list \<Rightarrow> real list" where
  "graph_gaussian_prior sigma r =
     map (\<lambda>x. exp (- x\<^sup>2 / (2 * sigma\<^sup>2)) / sqrt (2 * pi) * sigma) r"

definition graph_laplacian_prior :: "real \<Rightarrow> real list \<Rightarrow> real list" where
  "graph_laplacian_prior sigma r =
     map (\<lambda>x. exp (- \<bar>x\<bar> / (2 * sigma)) / (2 * sigma)) r"

lemma sum_list_divide_const: "(\<Sum>x\<leftarrow>xs. x / c) = sum_list xs / (c::real)"
  by (induction xs) (simp_all add: add_divide_distrib)

lemma normalised_sum: "sum_list xs \<noteq> 0 \<Longrightarrow> (\<Sum>x\<leftarrow>xs. x / sum_list xs) = (1::real)"
  by (simp add: sum_list_divide_const)

lemma sum_list_pos_real: "xs \<noteq> [] \<Longrightarrow> (\<And>x. x \<in> set xs \<Longrightarrow> 0 < x) \<Longrightarrow> 0 < (sum_list xs :: real)"
proof (induction xs)
  case Nil
  then show ?case by simp
next
  case (Cons a xs)
  then show ?case
    by (cases xs) (auto intro: add_pos_pos)
qed

lemma sum_list_scaled_nonzero:
  assumes "r \<noteq> []" "c \<noteq> 0" "\<And>x. 0 < f x"
  shows "(\<Sum>x\<leftarrow>r. f x * c) \<noteq> (0::real)"
proof -
  have "(\<Sum>x\<leftarrow>r. f x * c) = (\<Sum>x\<leftarrow>r. f x) * c"
    by (induction r) (simp_all add: distrib_right)
  moreover have "0 < (\<Sum>x\<leftarrow>r. f x)"
    using assms(1,3) by (intro sum_list_pos_real) auto
  ultimately show ?thesis using assms(2) by simp
qed

lemma uniform_prior_sums_to_one: "r \<noteq> [] \<Longrightarrow> sum_list (uniform_prior r) = 1"
  by (simp add: uniform_prior_def Let_def sum_list_replicate normalised_sum)

lemma gaussian_prior_sums_to_one:
  assumes "r \<noteq> []" "sigma \<noteq> 0"
  shows "sum_list (gaussian_prior sigma r) = 1"
proof -
  have "(\<Sum>x\<leftarrow>r. exp (- x\<^sup>2 / (2 * sigma\<^sup>2)) / sqrt (2 * pi) * sigma) \<noteq> 0"
    using assms by (intro sum_list_scaled_nonzero) simp_all
  then show ?thesis
    unfolding gaussian_prior_def Let_def by (rule normalised_sum)
qed

lemma laplacian_prior_sums_to_one:
  assumes "r \<noteq> []" "sigma \<noteq> 0"
  shows "sum_list (laplacian_prior sigma r) = 1"
proof -
  have "(\<Sum>x\<leftarrow>r. exp (- \<bar>x\<bar> / (2 * sigma)) * (1 / (2 * sigma))) \<noteq> 0"
    using assms by (intro sum_list_scaled_nonzero) simp_all
  then have "(\<Sum>x\<leftarrow>r. exp (- \<bar>x\<bar> / (2 * sigma)) / (2 * sigma)) \<noteq> 0"
    by simp
  then show ?thesis
    unfolding laplacian_prior_def Let_def by (rule normalised_sum)
qed

lemma graph_gaussian_prior_below_one: "sum_list (graph_gaussian_prior (1 / 2) [0]) < 1"
proof -
  define s where "s = sqrt (2 * pi)"
  have "1 < s"
    unfolding s_def using pi_ge_two by (intro real_less_rsqrt) simp
  then have "1 / s * (1 / 2) < 1"
    by (simp add: field_simps)
  then show ?thesis
    by (simp add: graph_gaussian_prior_def s_def)
qed


text \<open>
  Claim C3. Every prior is said to return values that sum to 1 over a non-empty batch. The
  priors of \<open>birl/base.py\<close> do (the three lemmas above); those of \<open>graph_birl.py\<close> do not:
  its uniform prior returns the batch (1/2, 1/5) as it is, of sum 7/10, and its Laplacian
  prior with \<open>sigma = 1/2\<close> returns (1, 1) on the batch (0, 0), where the priors of
  \<open>birl/base.py\<close> return values of sum 1.
\<close>

theorem graph_birl_priors_not_normalised:
  "sum_list (graph_uniform_prior [1 / 2, 1 / 5]) = 7 / 10
   \<and> sum_list (graph_laplacian_prior (1 / 2) [0, 0]) = 2
   \<and> sum_list (uniform_prior [1 / 2, 1 / 5]) = 1
   \<and> sum_list (laplacian_prior (1 / 2) [0, 0]) = 1"
  by (simp add: graph_uniform_prior_def graph_laplacian_prior_def uniform_prior_def
      laplacian_prior_def)


section \<open>The GraphBIRL solver (\<open>sirl/algorithms/graph_birl.py\<close>)\<close>




















end
